theory Spec2Isabelle
  imports Complex_Main "HOL-Library.Char_ord" "HOL-Library.List_Lexorder"
begin

section \<open>The dairy ledger of \<open>backend/server.py\<close>\<close>

text \<open>
  The handlers of \<open>server.py\<close> are embedded as functions from the stored collections to a
  result and the stored collections afterwards. A raised exception is the left summand of
  the result; the collections returned next to it are what the handler had written before
  it raised.

  Monetary values are Python floats in the source. They are modelled as exact reals:
  rounding, infinities and NaN are outside this development. Identifiers and timestamps
  that the source draws from \<open>uuid.uuid4()\<close> and \<open>datetime.now\<close> are parameters of the
  handlers.

  Record fields carry a prefix where two models of the source share a field name
  (\<open>id\<close>, \<open>name\<close>, \<open>customer_id\<close>, \<open>date\<close>, \<open>items\<close>, ...).
\<close>

subsection \<open>Models\<close>

record product =
  prod_id :: string
  prod_name :: string
  category :: string
  prod_unit :: string
  prod_price :: real
  description :: "string option"
  prod_is_active :: bool
  prod_created_at :: string

record customer =
  cust_id :: string
  cust_name :: string
  phone :: string
  address :: string
  email :: "string option"
  outstanding_balance :: real
  credit_limit :: real
  cust_is_active :: bool
  cust_created_at :: string

record sale_item =
  item_product_id :: string
  item_product_name :: string
  quantity :: real
  item_unit :: string
  price :: real
  total :: real

record daily_sale =
  sale_id :: string
  sale_customer_id :: string
  sale_customer_name :: string
  sale_date :: string
  sale_items :: "sale_item list"
  total_amount :: real
  paid_amount :: real
  is_paid :: bool
  sale_created_at :: string

record daily_sale_create =
  dsc_customer_id :: string
  dsc_date :: string
  dsc_items :: "sale_item list"
  dsc_paid_amount :: real

record guest_sale =
  guest_id :: string
  guest_name :: "string option"
  guest_phone :: "string option"
  guest_date :: string
  guest_items :: "sale_item list"
  guest_total_amount :: real
  payment_method :: string
  guest_created_at :: string

record guest_sale_create =
  gsc_guest_name :: "string option"
  gsc_guest_phone :: "string option"
  gsc_items :: "sale_item list"
  gsc_payment_method :: string

record monthly_bill =
  bill_id :: string
  bill_customer_id :: string
  bill_customer_name :: string
  month :: int
  year :: int
  total_sales :: real
  total_paid :: real
  balance_due :: real
  sales_count :: int
  generated_at :: string
  email_sent :: bool

record bill_email_request =
  req_bill_id :: string
  req_recipient_email :: string

text \<open>The collections of the document store, each in its natural (insertion) order.\<close>

record db =
  products :: "product list"
  customers :: "customer list"
  daily_sales :: "daily_sale list"
  guest_sales :: "guest_sale list"
  monthly_bills :: "monthly_bill list"

datatype error =
    HTTPException int string
  | OverflowError
  | IndexError
  | ValueError
  | OperationFailure

subsection \<open>The store's operations on one collection\<close>

text \<open>\<open>find_one\<close>: the first document that matches the filter, if any.\<close>

fun find_one :: "('a \<Rightarrow> bool) \<Rightarrow> 'a list \<Rightarrow> 'a option" where
  "find_one P [] = None"
| "find_one P (x # xs) = (if P x then Some x else find_one P xs)"

text \<open>\<open>update_one\<close>: the first document that matches is replaced by its update; none
  matching, nothing changes.\<close>

fun update_one :: "('a \<Rightarrow> bool) \<Rightarrow> ('a \<Rightarrow> 'a) \<Rightarrow> 'a list \<Rightarrow> 'a list" where
  "update_one P f [] = []"
| "update_one P f (x # xs) = (if P x then f x # xs else x # update_one P f xs)"


definition insert_one :: "'a \<Rightarrow> 'a list \<Rightarrow> 'a list" where
  "insert_one x xs = xs @ [x]"

text \<open>\<open>find(query).to_list(n)\<close>: the matching documents, at most \<open>n\<close> of them.\<close>

definition find_to_list :: "('a \<Rightarrow> bool) \<Rightarrow> nat \<Rightarrow> 'a list \<Rightarrow> 'a list" where
  "find_to_list P n xs = take n (filter P xs)"

text \<open>\<open>{"$inc": {"outstanding_balance": balance_change}}\<close> on the customer with the given id.\<close>

definition inc_balance :: "string \<Rightarrow> real \<Rightarrow> customer list \<Rightarrow> customer list" where
  "inc_balance cid balance_change cs =
     update_one (\<lambda>c. cust_id c = cid)
       (\<lambda>c. c\<lparr>outstanding_balance := outstanding_balance c + balance_change\<rparr>) cs"

subsection \<open>Daily sales\<close>




subsection \<open>Guest sales\<close>

definition create_guest_sale ::
  "string \<Rightarrow> string \<Rightarrow> string \<Rightarrow> guest_sale_create \<Rightarrow> db \<Rightarrow> (error + guest_sale) \<times> db" where
  "create_guest_sale new_id now today data s =
     (let total_amount = sum_list (map total (gsc_items data));
          sale = \<lparr>guest_id = new_id,
                  guest_name = gsc_guest_name data,
                  guest_phone = gsc_guest_phone data,
                  guest_date = today,
                  guest_items = gsc_items data,
                  guest_total_amount = total_amount,
                  payment_method = gsc_payment_method data,
                  guest_created_at = now\<rparr>
      in (Inr sale, s\<lparr>guest_sales := insert_one sale (guest_sales s)\<rparr>))"

subsection \<open>Sequences of sale operations\<close>






subsection \<open>Formatting integers\<close>

text \<open>\<open>str(n)\<close> and the format \<open>{n:02d}\<close> of Python, for integers.\<close>

definition digit_char :: "nat \<Rightarrow> char" where
  "digit_char d = ''0123456789'' ! d"

fun str_nat :: "nat \<Rightarrow> string" where
  "str_nat n = (if n < 10 then [digit_char n] else str_nat (n div 10) @ [digit_char (n mod 10)])"

declare str_nat.simps [simp del]

definition str_int :: "int \<Rightarrow> string" where
  "str_int i = (if i < 0 then CHR ''-'' # str_nat (nat (- i)) else str_nat (nat i))"

definition fmt_02d :: "int \<Rightarrow> string" where
  "fmt_02d i = (let s = str_int i in if length s < 2 then CHR ''0'' # s else s)"

subsection \<open>The window of a month\<close>

text \<open>
  The bounds that \<open>generate_monthly_bills\<close>, \<open>get_bill_details\<close>, \<open>get_dashboard_stats\<close>,
  \<open>get_top_customers\<close> and \<open>get_top_products\<close> each compute with the same three f-strings:
  \<open>start_date = f"{year}-{month:02d}-01"\<close>, and \<open>end_date = f"{year + 1}-01-01"\<close> if
  \<open>month == 12\<close>, else \<open>f"{year}-{month + 1:02d}-01"\<close>.
\<close>

definition month_window :: "int \<Rightarrow> int \<Rightarrow> string \<times> string" where
  "month_window mo yr =
     (let start_date = str_int yr @ ''-'' @ fmt_02d mo @ ''-01'';
          end_date = (if mo = 12 then str_int (yr + 1) @ ''-01-01''
                      else str_int yr @ ''-'' @ fmt_02d (mo + 1) @ ''-01'')
      in (start_date, end_date))"

text \<open>The query \<open>{"date": {"$gte": start_date, "$lt": end_date}}\<close>: the store compares
  strings byte by byte.\<close>

definition in_window :: "string \<times> string \<Rightarrow> string \<Rightarrow> bool" where
  "in_window w d \<longleftrightarrow> fst w \<le> d \<and> d < snd w"

text \<open>A calendar day in the form \<open>YYYY-MM-DD\<close> in which the spec gives dates: the year,
  then month and day on two digits each.\<close>

definition iso_date :: "int \<Rightarrow> int \<Rightarrow> int \<Rightarrow> string" where
  "iso_date y m d = str_int y @ ''-'' @ fmt_02d m @ ''-'' @ fmt_02d d"

text \<open>The decimal digits of a number on a fixed width, most significant first.\<close>

fun fixed_width :: "nat \<Rightarrow> nat \<Rightarrow> string" where
  "fixed_width 0 n = []"
| "fixed_width (Suc k) n = fixed_width k (n div 10) @ [digit_char (n mod 10)]"

subsection \<open>Dashboard: the top customers and products of the current month\<close>

record top_customer =
  tc_customer_id :: string
  tc_customer_name :: string
  total_purchases :: real
  purchase_count :: int

record top_product =
  tp_product_id :: string
  tp_product_name :: string
  total_quantity :: real
  total_revenue :: real

text \<open>
  The stages of the aggregation pipelines. \<open>$match\<close> keeps the documents in the window of
  the month. \<open>$group\<close> makes one group per distinct key, each with its documents in input
  order; the store leaves the order of the groups open, here it is the order in which
  \<open>remdups\<close> lists the keys. \<open>$sort\<close> with \<open>-1\<close> orders by descending value; the store
  leaves the order of ties open, here the sort is the stable \<open>sort_key\<close>.
\<close>

definition month_sales :: "int \<Rightarrow> int \<Rightarrow> db \<Rightarrow> daily_sale list" where
  "month_sales mo yr s = filter (\<lambda>x. in_window (month_window mo yr) (sale_date x)) (daily_sales s)"

definition group_stage :: "('a \<Rightarrow> 'k) \<Rightarrow> 'a list \<Rightarrow> ('k \<times> 'a list) list" where
  "group_stage key docs = map (\<lambda>k. (k, filter (\<lambda>d. key d = k) docs)) (remdups (map key docs))"

definition sort_desc :: "('a \<Rightarrow> real) \<Rightarrow> 'a list \<Rightarrow> 'a list" where
  "sort_desc f xs = sort_key (\<lambda>x. - f x) xs"

text \<open>
  The end of both pipelines, \<open>{"$limit": limit}\<close> read with \<open>.to_list(limit)\<close>. The driver's
  \<open>to_list\<close> refuses a negative length with \<open>ValueError\<close> before anything is sent; the
  store's \<open>$limit\<close> stage takes a positive integer only and rejects the pipeline otherwise
  ("the limit must be positive"), which the driver raises as \<open>OperationFailure\<close>. A
  positive limit truncates, in the stage and again in \<open>to_list\<close>.
\<close>

definition limit_to_list :: "int \<Rightarrow> 'a list \<Rightarrow> error + 'a list" where
  "limit_to_list limit docs =
     (if limit < 0 then Inl ValueError
      else if limit \<le> 0 then Inl OperationFailure
      else Inr (take (nat limit) (take (nat limit) docs)))"

definition customer_groups :: "daily_sale list \<Rightarrow> top_customer list" where
  "customer_groups sales =
     map (\<lambda>(k, docs). \<lparr>tc_customer_id = k,
                        tc_customer_name = sale_customer_name (hd docs),
                        total_purchases = sum_list (map total_amount docs),
                        purchase_count = int (length docs)\<rparr>)
         (group_stage sale_customer_id sales)"

definition get_top_customers :: "int \<Rightarrow> int \<Rightarrow> int \<Rightarrow> db \<Rightarrow> error + top_customer list" where
  "get_top_customers limit current_month current_year s =
     limit_to_list limit
       (sort_desc total_purchases (customer_groups (month_sales current_month current_year s)))"

definition product_groups :: "sale_item list \<Rightarrow> top_product list" where
  "product_groups unwound =
     map (\<lambda>(k, docs). \<lparr>tp_product_id = k,
                        tp_product_name = item_product_name (hd docs),
                        total_quantity = sum_list (map quantity docs),
                        total_revenue = sum_list (map total docs)\<rparr>)
         (group_stage item_product_id unwound)"

definition get_top_products :: "int \<Rightarrow> int \<Rightarrow> int \<Rightarrow> db \<Rightarrow> error + top_product list" where
  "get_top_products limit current_month current_year s =
     limit_to_list limit
       (sort_desc total_revenue
          (product_groups (concat (map sale_items (month_sales current_month current_year s)))))"

subsection \<open>Dashboard: the sales chart\<close>

text \<open>
  A \<open>datetime\<close> of Python: the day as its proleptic Gregorian ordinal (1 is 0001-01-01,
  3652059 is 9999-12-31, and no \<open>datetime\<close> lies outside), and the time of day in
  microseconds. \<open>timedelta(days=d)\<close> raises \<open>OverflowError\<close> beyond 999999999 days in
  either direction, and adding a \<open>timedelta\<close> to a \<open>datetime\<close> raises \<open>OverflowError\<close>
  when the sum is not a \<open>datetime\<close>.
\<close>

record datetime =
  ordinal :: int
  time_of_day :: nat

definition timedelta_days :: "int \<Rightarrow> error + int" where
  "timedelta_days d = (if - 999999999 \<le> d \<and> d \<le> 999999999 then Inr d else Inl OverflowError)"

definition datetime_add :: "datetime \<Rightarrow> int \<Rightarrow> error + datetime" where
  "datetime_add dt td =
     (if 1 \<le> ordinal dt + td \<and> ordinal dt + td \<le> 3652059
      then Inr (dt\<lparr>ordinal := ordinal dt + td\<rparr>) else Inl OverflowError)"

definition datetime_le :: "datetime \<Rightarrow> datetime \<Rightarrow> bool" where
  "datetime_le a b \<longleftrightarrow>
     ordinal a < ordinal b \<or> ordinal a = ordinal b \<and> time_of_day a \<le> time_of_day b"

record chart_point =
  cp_date :: string
  cp_day :: string
  cp_revenue :: real
  cp_transactions :: int

text \<open>The body of the loop of \<open>get_sales_chart\<close>: the data point of the day \<open>current\<close>.
  \<open>fmt_date\<close> and \<open>fmt_day\<close> stand for \<open>strftime("%Y-%m-%d")\<close> and \<open>strftime("%a")\<close>.\<close>

definition chart_point_of ::
  "(datetime \<Rightarrow> string) \<Rightarrow> (datetime \<Rightarrow> string) \<Rightarrow> db \<Rightarrow> datetime \<Rightarrow> chart_point" where
  "chart_point_of fmt_date fmt_day s current =
     (let date_str = fmt_date current;
          daily = find_to_list (\<lambda>x. sale_date x = date_str) 1000 (daily_sales s);
          guest = find_to_list (\<lambda>x. guest_date x = date_str) 1000 (guest_sales s);
          revenue = sum_list (map total_amount daily) + sum_list (map guest_total_amount guest)
      in \<lparr>cp_date = date_str, cp_day = fmt_day current, cp_revenue = revenue,
          cp_transactions = int (length daily) + int (length guest)\<rparr>)"

function chart_loop ::
  "(datetime \<Rightarrow> string) \<Rightarrow> (datetime \<Rightarrow> string) \<Rightarrow> db \<Rightarrow> datetime \<Rightarrow> datetime
     \<Rightarrow> chart_point list \<Rightarrow> error + chart_point list" where
  "chart_loop fmt_date fmt_day s end_date current chart_data =
     (if datetime_le current end_date
      then (case datetime_add current 1 of
              Inl e \<Rightarrow> Inl e
            | Inr next \<Rightarrow>
                chart_loop fmt_date fmt_day s end_date next
                  (chart_data @ [chart_point_of fmt_date fmt_day s current]))
      else Inr chart_data)"
  by pat_completeness auto
termination
  by (relation "measure (\<lambda>(fmt_date, fmt_day, s, end_date, current, chart_data).
                  nat (ordinal end_date + 1 - ordinal current))")
     (auto simp: datetime_le_def datetime_add_def split: if_splits)

declare chart_loop.simps [simp del]

definition get_sales_chart ::
  "(datetime \<Rightarrow> string) \<Rightarrow> (datetime \<Rightarrow> string) \<Rightarrow> datetime \<Rightarrow> int \<Rightarrow> db
     \<Rightarrow> error + chart_point list" where
  "get_sales_chart fmt_date fmt_day now days s =
     (case timedelta_days days of
        Inl e \<Rightarrow> Inl e
      | Inr td \<Rightarrow>
          (case datetime_add now (- td) of
             Inl e \<Rightarrow> Inl e
           | Inr start_date \<Rightarrow> chart_loop fmt_date fmt_day s now start_date []))"

text \<open>
  The two formats on the days of the calendar, after \<open>_ord2ymd\<close> and \<open>weekday\<close> of
  Python's \<open>datetime\<close> module (C locale): year, month and day of an ordinal, and the
  abbreviated name of its weekday.
\<close>

definition days_before_month :: "int list" where
  "days_before_month = [0, 0, 31, 59, 90, 120, 151, 181, 212, 243, 273, 304, 334]"

definition days_in_month :: "int list" where
  "days_in_month = [0, 31, 28, 31, 30, 31, 30, 31, 31, 30, 31, 30, 31]"

definition ord2ymd :: "int \<Rightarrow> int \<times> int \<times> int" where
  "ord2ymd n =
     (let n0 = n - 1;
          n400 = n0 div 146097; r400 = n0 mod 146097;
          n100 = r400 div 36524; r100 = r400 mod 36524;
          n4 = r100 div 1461; r4 = r100 mod 1461;
          n1 = r4 div 365; r1 = r4 mod 365;
          yr = n400 * 400 + 1 + n100 * 100 + n4 * 4 + n1
      in if n1 = 4 \<or> n100 = 4 then (yr - 1, 12, 31)
         else
           (let leapyear = (n1 = 3 \<and> (n4 \<noteq> 24 \<or> n100 = 3));
                mo = (r1 + 50) div 32;
                preceding = days_before_month ! nat mo + (if mo > 2 \<and> leapyear then 1 else 0)
            in if preceding > r1
               then (yr, mo - 1,
                     r1 - (preceding - (days_in_month ! nat (mo - 1)
                                        + (if mo - 1 = 2 \<and> leapyear then 1 else 0))) + 1)
               else (yr, mo, r1 - preceding + 1)))"

definition strftime_ymd :: "datetime \<Rightarrow> string" where
  "strftime_ymd dt = (case ord2ymd (ordinal dt) of (y, m, d) \<Rightarrow> iso_date y m d)"

definition strftime_a :: "datetime \<Rightarrow> string" where
  "strftime_a dt =
     [''Mon'', ''Tue'', ''Wed'', ''Thu'', ''Fri'', ''Sat'', ''Sun''] ! nat ((ordinal dt + 6) mod 7)"

subsection \<open>Monthly bills\<close>

text \<open>The query \<open>{"customer_id": .., "month": .., "year": ..}\<close> on the bills.\<close>

definition bill_key :: "int \<Rightarrow> int \<Rightarrow> string \<Rightarrow> monthly_bill \<Rightarrow> bool" where
  "bill_key mo yr cid b \<longleftrightarrow> bill_customer_id b = cid \<and> month b = mo \<and> year b = yr"


text \<open>The dictionary \<open>bill_data\<close> of the loop, as a function of the \<open>id\<close> it gets last.\<close>

definition bill_data ::
  "customer \<Rightarrow> int \<Rightarrow> int \<Rightarrow> daily_sale list \<Rightarrow> string \<Rightarrow> string \<Rightarrow> monthly_bill" where
  "bill_data c mo yr sales now ident =
     (let total_sales = sum_list (map total_amount sales);
          total_paid = sum_list (map paid_amount sales)
      in \<lparr>bill_id = ident,
          bill_customer_id = cust_id c,
          bill_customer_name = cust_name c,
          month = mo,
          year = yr,
          total_sales = total_sales,
          total_paid = total_paid,
          balance_due = total_sales - total_paid,
          sales_count = int (length sales),
          generated_at = now,
          email_sent = False\<rparr>)"






subsection \<open>Sending a bill by email\<close>

record email_params =
  from_addr :: string
  to_addrs :: "string list"
  subject :: string
  html :: string

record send_response =
  status :: string
  message :: string
  email_id :: "string option"

definition month_names :: "string list" where
  "month_names = ['''', ''January'', ''February'', ''March'', ''April'', ''May'', ''June'',
                  ''July'', ''August'', ''September'', ''October'', ''November'', ''December'']"

text \<open>Indexing a Python list, \<open>xs[i]\<close>: an index from \<open>0\<close> reads from the front, one
  from \<open>-1\<close> down to \<open>-len(xs)\<close> reads from the back, any other raises \<open>IndexError\<close>.\<close>

definition py_index :: "'a list \<Rightarrow> int \<Rightarrow> error + 'a" where
  "py_index xs i =
     (if 0 \<le> i \<and> i < int (length xs) then Inr (xs ! nat i)
      else if i < 0 \<and> - int (length xs) \<le> i then Inr (xs ! nat (int (length xs) + i))
      else Inl IndexError)"

text \<open>
  \<open>send_bill_email\<close>. The parameters stand for what the handler reads from outside the
  store: whether \<open>resend.api_key\<close> is set, \<open>SENDER_EMAIL\<close>, the provider's
  \<open>resend.Emails.send\<close> (\<open>Inl\<close> the text of the exception it raises, \<open>Inr\<close> the \<open>id\<close> of
  the email it returns), and the HTML template of the statement, a function of the month
  name and the bill.
\<close>

definition bill_email_params ::
  "string \<Rightarrow> bill_email_request \<Rightarrow> string \<Rightarrow> monthly_bill \<Rightarrow> string \<Rightarrow> email_params" where
  "bill_email_params sender_email request month_name bill html_content =
     \<lparr>from_addr = sender_email,
      to_addrs = [req_recipient_email request],
      subject = ''Lata Dairy - Bill Statement for '' @ month_name @ '' '' @ str_int (year bill),
      html = html_content\<rparr>"

definition send_bill_email ::
  "bool \<Rightarrow> string \<Rightarrow> (email_params \<Rightarrow> string + string option) \<Rightarrow> (string \<Rightarrow> monthly_bill \<Rightarrow> string)
     \<Rightarrow> bill_email_request \<Rightarrow> db \<Rightarrow> (error + send_response) \<times> db" where
  "send_bill_email api_key_set sender_email emails_send bill_html request s =
     (case find_one (\<lambda>b. bill_id b = req_bill_id request) (monthly_bills s) of
        None \<Rightarrow> (Inl (HTTPException 404 ''Bill not found''), s)
      | Some bill \<Rightarrow>
          (case py_index month_names (month bill) of
             Inl e \<Rightarrow> (Inl e, s)
           | Inr month_name \<Rightarrow>
               (let html_content = bill_html month_name bill in
                if \<not> api_key_set then (Inl (HTTPException 500 ''Email service not configured''), s)
                else
                  (let params = bill_email_params sender_email request month_name bill html_content
                   in case emails_send params of
                        Inl e \<Rightarrow> (Inl (HTTPException 500 (''Failed to send email: '' @ e)), s)
                      | Inr sent \<Rightarrow>
                          (Inr \<lparr>status = ''success'',
                                message = ''Bill sent to '' @ req_recipient_email request,
                                email_id = sent\<rparr>,
                           s\<lparr>monthly_bills :=
                                update_one (\<lambda>b. bill_id b = req_bill_id request)
                                  (\<lambda>b. b\<lparr>email_sent := True\<rparr>) (monthly_bills s)\<rparr>)))))"

subsection \<open>Example data\<close>

definition example_customer :: customer where
  "example_customer =
     \<lparr>cust_id = ''c1'', cust_name = ''Asha'', phone = ''5550100'', address = ''1 Dairy Lane'',
      email = Some ''asha@example.org'', outstanding_balance = 0, credit_limit = 5000,
      cust_is_active = True, cust_created_at = ''2024-01-01T00:00:00+00:00''\<rparr>"

definition example_item :: sale_item where
  "example_item =
     \<lparr>item_product_id = ''p1'', item_product_name = ''Milk'', quantity = 2, item_unit = ''liter'',
      price = 50, total = 100\<rparr>"

definition example_request :: daily_sale_create where
  "example_request =
     \<lparr>dsc_customer_id = ''c1'', dsc_date = ''2024-01-15'', dsc_items = [example_item],
      dsc_paid_amount = 60\<rparr>"

definition example_db :: db where
  "example_db =
     \<lparr>products = [], customers = [example_customer], daily_sales = [], guest_sales = [],
      monthly_bills = []\<rparr>"

definition example_sale :: daily_sale where
  "example_sale =
     \<lparr>sale_id = ''s1'', sale_customer_id = ''c1'', sale_customer_name = ''Asha'',
      sale_date = ''2024-01-15'', sale_items = [example_item], total_amount = 100,
      paid_amount = 60, is_paid = False, sale_created_at = ''2024-01-15T08:00:00+00:00''\<rparr>"

definition example_db_sold :: db where
  "example_db_sold =
     \<lparr>products = [], customers = [example_customer\<lparr>outstanding_balance := 40\<rparr>],
      daily_sales = [example_sale], guest_sales = [], monthly_bills = []\<rparr>"

definition example_bill :: monthly_bill where
  "example_bill =
     \<lparr>bill_id = ''b1'', bill_customer_id = ''c1'', bill_customer_name = ''Asha'', month = 1,
      year = 2024, total_sales = 100, total_paid = 60, balance_due = 40, sales_count = 1,
      generated_at = ''2024-02-01T06:00:00+00:00'', email_sent = False\<rparr>"

definition example_db_billed :: db where
  "example_db_billed = example_db_sold\<lparr>monthly_bills := [example_bill]\<rparr>"

definition example_mail :: bill_email_request where
  "example_mail = \<lparr>req_bill_id = ''b1'', req_recipient_email = ''asha@example.org''\<rparr>"

definition example_sale2 :: daily_sale where
  "example_sale2 =
     \<lparr>sale_id = ''s2'', sale_customer_id = ''c2'', sale_customer_name = ''Ravi'',
      sale_date = ''2024-01-20'',
      sale_items = [\<lparr>item_product_id = ''p2'', item_product_name = ''Ghee'', quantity = 1,
                     item_unit = ''kg'', price = 250, total = 250\<rparr>],
      total_amount = 250, paid_amount = 250, is_paid = True,
      sale_created_at = ''2024-01-20T08:00:00+00:00''\<rparr>"

definition example_sale3 :: daily_sale where
  "example_sale3 =
     \<lparr>sale_id = ''s3'', sale_customer_id = ''c1'', sale_customer_name = ''Asha'',
      sale_date = ''2024-01-25'',
      sale_items = [\<lparr>item_product_id = ''p1'', item_product_name = ''Milk'', quantity = 1,
                     item_unit = ''liter'', price = 50, total = 50\<rparr>],
      total_amount = 50, paid_amount = 40, is_paid = False,
      sale_created_at = ''2024-01-25T08:00:00+00:00''\<rparr>"

definition example_db_month :: db where
  "example_db_month =
     \<lparr>products = [],
      customers = [example_customer\<lparr>outstanding_balance := 50\<rparr>,
                   example_customer\<lparr>cust_id := ''c2'', cust_name := ''Ravi'', email := None\<rparr>],
      daily_sales = [example_sale, example_sale2, example_sale3],
      guest_sales = [], monthly_bills = []\<rparr>"

definition example_guest_sale :: guest_sale where
  "example_guest_sale =
     \<lparr>guest_id = ''g1'', guest_name = Some ''Walk-in Customer'', guest_phone = Some '''',
      guest_date = ''2024-01-15'',
      guest_items = [\<lparr>item_product_id = ''p1'', item_product_name = ''Milk'', quantity = 1,
                      item_unit = ''liter'', price = 20, total = 20\<rparr>],
      guest_total_amount = 20, payment_method = ''cash'',
      guest_created_at = ''2024-01-15T09:00:00+00:00''\<rparr>"

definition example_db_chart :: db where
  "example_db_chart = example_db_month\<lparr>guest_sales := [example_guest_sale]\<rparr>"

text \<open>2024-01-15 (a Monday), 10:00:00.\<close>

definition example_now :: datetime where
  "example_now = \<lparr>ordinal = 738900, time_of_day = 36000000000\<rparr>"

text \<open>A store with 1001 daily sales of one customer on one day, under the identifiers
  \<open>0\<close> to \<open>1000\<close>.\<close>

definition busy_day_db :: db where
  "busy_day_db =
     \<lparr>products = [], customers = [example_customer\<lparr>outstanding_balance := 40040\<rparr>],
      daily_sales = map (\<lambda>i. example_sale\<lparr>sale_id := str_nat i\<rparr>) [0..<1001],
      guest_sales = [], monthly_bills = []\<rparr>"




section \<open>Facts about the store's operations\<close>

lemma find_one_Some_iff:
  "find_one P xs = Some x \<Longrightarrow> P x \<and> x \<in> set xs"
  by (induction xs) (auto split: if_splits)

lemma find_one_None_iff: "find_one P xs = None \<longleftrightarrow> (\<forall>x \<in> set xs. \<not> P x)"
  by (induction xs) auto




lemma update_one_no_match: "find_one P xs = None \<Longrightarrow> update_one P f xs = xs"
  by (induction xs) (auto split: if_splits)

lemma length_update_one [simp]: "length (update_one P f xs) = length xs"
  by (induction xs) auto






lemma map_cust_id_inc_balance [simp]:
  "map cust_id (inc_balance cid d cs) = map cust_id cs"
  unfolding inc_balance_def by (induction cs) auto

lemma update_one_split:
  "find_one P xs = Some x \<Longrightarrow>
   \<exists>ys zs. xs = ys @ x # zs \<and> (\<forall>y \<in> set ys. \<not> P y) \<and> update_one P f xs = ys @ f x # zs"
proof (induction xs)
  case Nil
  then show ?case by simp
next
  case (Cons a xs)
  show ?case
  proof (cases "P a")
    case True
    with Cons.prems have "a = x" by simp
    with True have "a # xs = [] @ x # xs \<and> (\<forall>y \<in> set []. \<not> P y)
        \<and> update_one P f (a # xs) = [] @ f x # xs" by simp
    then show ?thesis by blast
  next
    case False
    with Cons.prems have "find_one P xs = Some x" by simp
    from Cons.IH [OF this] obtain ys zs where
      h: "xs = ys @ x # zs" "\<forall>y \<in> set ys. \<not> P y" "update_one P f xs = ys @ f x # zs"
      by blast
    with False have "a # xs = (a # ys) @ x # zs \<and> (\<forall>y \<in> set (a # ys). \<not> P y)
        \<and> update_one P f (a # xs) = (a # ys) @ f x # zs" by simp
    then show ?thesis by blast
  qed
qed




lemmas example_defs = example_db_def example_customer_def example_request_def example_item_def
  example_sale_def example_db_sold_def example_bill_def example_db_billed_def example_mail_def
  example_sale2_def example_sale3_def example_db_month_def example_guest_sale_def
  example_db_chart_def

section \<open>Sale creation\<close>




section \<open>Payment amendment\<close>





section \<open>Sale deletion\<close>




section \<open>Guest sales\<close>

text \<open>
  C9. Creating a guest sale always succeeds and changes nothing but the guest-sales
  collection, which gains the new record at its end: the customers (so every balance and
  every other customer field), the daily sales, the bills and the products are the same
  before and after.
\<close>

theorem create_guest_sale_frame:
  "\<exists>sale. create_guest_sale new_id now today data s =
             (Inr sale, s\<lparr>guest_sales := guest_sales s @ [sale]\<rparr>)
          \<and> customers (snd (create_guest_sale new_id now today data s)) = customers s
          \<and> daily_sales (snd (create_guest_sale new_id now today data s)) = daily_sales s
          \<and> monthly_bills (snd (create_guest_sale new_id now today data s)) = monthly_bills s
          \<and> products (snd (create_guest_sale new_id now today data s)) = products s
          \<and> guest_sales (snd (create_guest_sale new_id now today data s)) = guest_sales s @ [sale]
          \<and> guest_total_amount sale = sum_list (map total (gsc_items data))"
  by (simp add: create_guest_sale_def Let_def insert_one_def)

section \<open>The balance invariant\<close>













section \<open>Sending a bill\<close>

lemma send_bill_email_cases:
  assumes "find_one (\<lambda>b. bill_id b = req_bill_id request) (monthly_bills s) = Some bill"
  shows "send_bill_email key sender emails_send bill_html request s =
     (case py_index month_names (month bill) of
        Inl e \<Rightarrow> (Inl e, s)
      | Inr mn \<Rightarrow>
          if \<not> key then (Inl (HTTPException 500 ''Email service not configured''), s)
          else (case emails_send (bill_email_params sender request mn bill (bill_html mn bill)) of
                  Inl msg \<Rightarrow> (Inl (HTTPException 500 (''Failed to send email: '' @ msg)), s)
                | Inr sent \<Rightarrow>
                    (Inr \<lparr>status = ''success'',
                          message = ''Bill sent to '' @ req_recipient_email request,
                          email_id = sent\<rparr>,
                     s\<lparr>monthly_bills :=
                          update_one (\<lambda>b. bill_id b = req_bill_id request)
                            (\<lambda>b. b\<lparr>email_sent := True\<rparr>) (monthly_bills s)\<rparr>)))"
  using assms by (simp add: send_bill_email_def Let_def split: sum.splits)

text \<open>
  C10. Sending the email of an existing bill leaves the customers, the sales and the
  products alone. When the handler raises, the whole store is as before. When it returns,
  the bills are as before except that the first bill with the requested id has
  \<open>email_sent = True\<close>, all its other fields unchanged. With the month name found and the
  API key set, the outcome is the provider's: a failed delivery raises 500 with the
  provider's message (so nothing is written and \<open>email_sent\<close> is not set), a successful
  one returns the success response.
\<close>

theorem send_bill_email_spec:
  "\<forall>bill. find_one (\<lambda>b. bill_id b = req_bill_id request) (monthly_bills s) = Some bill \<longrightarrow>
     (case send_bill_email key sender emails_send bill_html request s of
        (r, s') \<Rightarrow>
          customers s' = customers s \<and> daily_sales s' = daily_sales s
          \<and> guest_sales s' = guest_sales s \<and> products s' = products s
          \<and> (case r of
                Inl e \<Rightarrow> s' = s
              | Inr resp \<Rightarrow>
                  (\<exists>xs ys. monthly_bills s = xs @ bill # ys
                      \<and> (\<forall>b \<in> set xs. bill_id b \<noteq> req_bill_id request)
                      \<and> monthly_bills s' = xs @ bill\<lparr>email_sent := True\<rparr> # ys))
          \<and> (\<forall>mn. py_index month_names (month bill) = Inr mn \<and> key \<longrightarrow>
                (case emails_send (bill_email_params sender request mn bill (bill_html mn bill)) of
                   Inl msg \<Rightarrow> r = Inl (HTTPException 500 (''Failed to send email: '' @ msg)) \<and> s' = s
                 | Inr sent \<Rightarrow>
                     r = Inr \<lparr>status = ''success'',
                              message = ''Bill sent to '' @ req_recipient_email request,
                              email_id = sent\<rparr>)))"
proof (intro allI impI)
  fix bill
  assume found: "find_one (\<lambda>b. bill_id b = req_bill_id request) (monthly_bills s) = Some bill"
  from update_one_split [OF found, of "\<lambda>b. b\<lparr>email_sent := True\<rparr>"]
  have upd: "\<exists>xs ys. monthly_bills s = xs @ bill # ys
               \<and> (\<forall>b \<in> set xs. bill_id b \<noteq> req_bill_id request)
               \<and> update_one (\<lambda>b. bill_id b = req_bill_id request)
                    (\<lambda>b. b\<lparr>email_sent := True\<rparr>) (monthly_bills s) = xs @ bill\<lparr>email_sent := True\<rparr> # ys"
    by simp
  show "case send_bill_email key sender emails_send bill_html request s of
        (r, s') \<Rightarrow>
          customers s' = customers s \<and> daily_sales s' = daily_sales s
          \<and> guest_sales s' = guest_sales s \<and> products s' = products s
          \<and> (case r of
                Inl e \<Rightarrow> s' = s
              | Inr resp \<Rightarrow>
                  (\<exists>xs ys. monthly_bills s = xs @ bill # ys
                      \<and> (\<forall>b \<in> set xs. bill_id b \<noteq> req_bill_id request)
                      \<and> monthly_bills s' = xs @ bill\<lparr>email_sent := True\<rparr> # ys))
          \<and> (\<forall>mn. py_index month_names (month bill) = Inr mn \<and> key \<longrightarrow>
                (case emails_send (bill_email_params sender request mn bill (bill_html mn bill)) of
                   Inl msg \<Rightarrow> r = Inl (HTTPException 500 (''Failed to send email: '' @ msg)) \<and> s' = s
                 | Inr sent \<Rightarrow>
                     r = Inr \<lparr>status = ''success'',
                              message = ''Bill sent to '' @ req_recipient_email request,
                              email_id = sent\<rparr>))"
    using upd by (simp add: send_bill_email_cases [OF found] split: sum.splits)
qed

theorem send_bill_email_spec_witness:
  "find_one (\<lambda>b. bill_id b = req_bill_id example_mail) (monthly_bills example_db_billed)
     = Some example_bill
   \<and> py_index month_names (month example_bill) = Inr ''January''
   \<and> send_bill_email True ''shop@example.org'' (\<lambda>_. Inr (Some ''e1'')) (\<lambda>_ _. ''<div/>'')
        example_mail example_db_billed
      = (Inr \<lparr>status = ''success'', message = ''Bill sent to asha@example.org'',
              email_id = Some ''e1''\<rparr>,
         example_db_billed\<lparr>monthly_bills := [example_bill\<lparr>email_sent := True\<rparr>]\<rparr>)
   \<and> send_bill_email True ''shop@example.org'' (\<lambda>_. Inl ''timeout'') (\<lambda>_ _. ''<div/>'')
        example_mail example_db_billed
      = (Inl (HTTPException 500 ''Failed to send email: timeout''), example_db_billed)"
  using send_bill_email_spec [where request = example_mail and s = example_db_billed and key = True
          and sender = "''shop@example.org''" and emails_send = "\<lambda>_. Inr (Some ''e1'')"
          and bill_html = "\<lambda>_ _. ''<div/>''"]
        send_bill_email_spec [where request = example_mail and s = example_db_billed and key = True
          and sender = "''shop@example.org''" and emails_send = "\<lambda>_. Inl ''timeout''"
          and bill_html = "\<lambda>_ _. ''<div/>''"]
  by (simp add: example_defs send_bill_email_def py_index_def month_names_def Let_def
        bill_email_params_def)

section \<open>The window of a month\<close>

lemma digit_char_code: "d < 10 \<Longrightarrow> (of_char (digit_char d) :: nat) = 48 + d"
proof -
  assume "d < 10"
  then have "d \<in> {0, 1, 2, 3, 4, 5, 6, 7, 8, 9}" by auto
  then show ?thesis by (auto simp: digit_char_def)
qed

lemma digit_char_less: "a < 10 \<Longrightarrow> b < 10 \<Longrightarrow> digit_char a < digit_char b \<longleftrightarrow> a < b"
  by (simp add: less_char_def digit_char_code)

lemma digit_char_eq: "a < 10 \<Longrightarrow> b < 10 \<Longrightarrow> digit_char a = digit_char b \<longleftrightarrow> a = b"
proof
  assume "a < 10" "b < 10" "digit_char a = digit_char b"
  then have "(of_char (digit_char a) :: nat) = of_char (digit_char b)" by simp
  with \<open>a < 10\<close> \<open>b < 10\<close> show "a = b" by (simp add: digit_char_code)
qed simp

lemma less_append_same_length:
  fixes a b :: "'a::linorder list"
  shows "length a = length b \<Longrightarrow> a @ x < b @ y \<longleftrightarrow> a < b \<or> a = b \<and> x < y"
  by (induction a b rule: list_induct2) auto

lemma length_fixed_width [simp]: "length (fixed_width k n) = k"
  by (induction k arbitrary: n) auto

lemma fixed_width_eq:
  "n < 10 ^ k \<Longrightarrow> m < 10 ^ k \<Longrightarrow> fixed_width k n = fixed_width k m \<longleftrightarrow> n = m"
proof (induction k arbitrary: n m)
  case 0
  then show ?case by simp
next
  case (Suc k)
  from Suc.prems have b: "n div 10 < 10 ^ k" "m div 10 < 10 ^ k" by auto
  have "fixed_width (Suc k) n = fixed_width (Suc k) m \<longleftrightarrow>
        fixed_width k (n div 10) = fixed_width k (m div 10) \<and> digit_char (n mod 10) = digit_char (m mod 10)"
    by simp
  also have "\<dots> \<longleftrightarrow> n div 10 = m div 10 \<and> n mod 10 = m mod 10"
    by (simp add: Suc.IH [OF b] digit_char_eq)
  also have "\<dots> \<longleftrightarrow> n = m"
    by (metis div_mult_mod_eq)
  finally show ?case .
qed

lemma fixed_width_less:
  "n < 10 ^ k \<Longrightarrow> m < 10 ^ k \<Longrightarrow> fixed_width k n < fixed_width k m \<longleftrightarrow> n < m"
proof (induction k arbitrary: n m)
  case 0
  then show ?case by simp
next
  case (Suc k)
  from Suc.prems have b: "n div 10 < 10 ^ k" "m div 10 < 10 ^ k" by auto
  have "fixed_width (Suc k) n < fixed_width (Suc k) m \<longleftrightarrow>
        fixed_width k (n div 10) < fixed_width k (m div 10)
        \<or> fixed_width k (n div 10) = fixed_width k (m div 10)
           \<and> digit_char (n mod 10) < digit_char (m mod 10)"
    by (simp add: less_append_same_length)
  also have "\<dots> \<longleftrightarrow> n div 10 < m div 10 \<or> n div 10 = m div 10 \<and> n mod 10 < m mod 10"
    by (simp add: Suc.IH [OF b] fixed_width_eq [OF b] digit_char_less)
  also have "\<dots> \<longleftrightarrow> n < m"
  proof -
    define a b c d where "a = n div 10" and "b = n mod 10" and "c = m div 10" and "d = m mod 10"
    have "n = 10 * a + b" "b < 10" "m = 10 * c + d" "d < 10"
      by (simp_all add: a_def b_def c_def d_def)
    then have "(a < c \<or> a = c \<and> b < d) \<longleftrightarrow> n < m" by arith
    then show ?thesis by (simp add: a_def b_def c_def d_def)
  qed
  finally show ?case .
qed

lemma str_nat_fixed_width:
  "10 ^ k \<le> n \<Longrightarrow> n < 10 ^ Suc k \<Longrightarrow> str_nat n = fixed_width (Suc k) n"
proof (induction k arbitrary: n)
  case 0
  then show ?case by (simp add: str_nat.simps [of n])
next
  case (Suc k)
  from Suc.prems have "10 ^ k \<le> n div 10" "n div 10 < 10 ^ Suc k" by auto
  from Suc.IH [OF this] have "str_nat (n div 10) = fixed_width (Suc k) (n div 10)" .
  moreover from Suc.prems have "\<not> n < 10"
    by (metis One_nat_def le_trans not_less one_le_numeral power_Suc power_increasing power_one_right
        Suc_leI zero_less_Suc)
  ultimately show ?case by (simp add: str_nat.simps [of n])
qed

lemma fixed_width_2: "fixed_width 2 n = [digit_char (n div 10 mod 10), digit_char (n mod 10)]"
  by (simp add: numeral_2_eq_2)

lemma str_int_year:
  assumes "1000 \<le> y" and "y \<le> 9999"
  shows "str_int y = fixed_width 4 (nat y)"
proof -
  have "(10::nat) ^ 3 \<le> nat y" and "nat y < 10 ^ Suc 3" using assms by simp_all
  then have "str_nat (nat y) = fixed_width (Suc 3) (nat y)" by (rule str_nat_fixed_width)
  moreover have "(4::nat) = Suc 3" by simp
  ultimately have "str_nat (nat y) = fixed_width 4 (nat y)" by (simp only:)
  with assms show ?thesis by (simp add: str_int_def)
qed

lemma fmt_02d_fixed_width:
  assumes "0 \<le> m" and "m < 100"
  shows "fmt_02d m = fixed_width 2 (nat m)"
proof (cases "m < 10")
  case True
  then have small: "nat m < 10" by simp
  with assms have "str_int m = [digit_char (nat m)]"
    by (simp add: str_int_def str_nat.simps [of "nat m"])
  with small show ?thesis
    by (simp add: fmt_02d_def fixed_width_2 digit_char_def)
next
  case False
  with assms have "(10::nat) ^ 1 \<le> nat m" and "nat m < 10 ^ Suc 1" by simp_all
  then have "str_nat (nat m) = fixed_width (Suc 1) (nat m)" by (rule str_nat_fixed_width)
  moreover have "(2::nat) = Suc 1" by simp
  ultimately have "str_nat (nat m) = fixed_width 2 (nat m)" by (simp only:)
  with assms show ?thesis by (simp add: fmt_02d_def str_int_def)
qed

lemma iso_date_fixed_width:
  assumes "1000 \<le> y" "y \<le> 9999" "0 \<le> m" "m < 100" "0 \<le> d" "d < 100"
  shows "iso_date y m d =
           fixed_width 4 (nat y) @ CHR ''-'' # fixed_width 2 (nat m) @ CHR ''-'' # fixed_width 2 (nat d)"
  using assms by (simp add: iso_date_def str_int_year fmt_02d_fixed_width)

lemma iso_date_less:
  assumes "1000 \<le> y" "y \<le> 9999" "0 \<le> m" "m < 100" "0 \<le> d" "d < 100"
    and "1000 \<le> y'" "y' \<le> 9999" "0 \<le> m'" "m' < 100" "0 \<le> d'" "d' < 100"
  shows "iso_date y m d < iso_date y' m' d' \<longleftrightarrow>
           y < y' \<or> y = y' \<and> (m < m' \<or> m = m' \<and> d < d')"
proof -
  have ny: "nat y < 10 ^ 4" "nat y' < 10 ^ 4" using assms by auto
  have nm: "nat m < 10 ^ 2" "nat m' < 10 ^ 2" using assms by auto
  have nd: "nat d < 10 ^ 2" "nat d' < 10 ^ 2" using assms by auto
  have "iso_date y m d < iso_date y' m' d' \<longleftrightarrow>
        nat y < nat y' \<or> nat y = nat y' \<and> (nat m < nat m' \<or> nat m = nat m' \<and> nat d < nat d')"
    by (simp add: iso_date_fixed_width assms less_append_same_length
          fixed_width_less [OF ny] fixed_width_eq [OF ny]
          fixed_width_less [OF nm] fixed_width_eq [OF nm]
          fixed_width_less [OF nd] fixed_width_eq [OF nd])
  also have "\<dots> \<longleftrightarrow> y < y' \<or> y = y' \<and> (m < m' \<or> m = m' \<and> d < d')"
    using assms by auto
  finally show ?thesis .
qed

lemma iso_date_inj:
  assumes "1000 \<le> y" "y \<le> 9999" "0 \<le> m" "m < 100" "0 \<le> d" "d < 100"
    and "1000 \<le> y'" "y' \<le> 9999" "0 \<le> m'" "m' < 100" "0 \<le> d'" "d' < 100"
  shows "iso_date y m d = iso_date y' m' d' \<longleftrightarrow> y = y' \<and> m = m' \<and> d = d'"
proof -
  have ny: "nat y < 10 ^ 4" "nat y' < 10 ^ 4" using assms by auto
  have nm: "nat m < 10 ^ 2" "nat m' < 10 ^ 2" using assms by auto
  have nd: "nat d < 10 ^ 2" "nat d' < 10 ^ 2" using assms by auto
  have "iso_date y m d = iso_date y' m' d' \<longleftrightarrow>
        nat y = nat y' \<and> nat m = nat m' \<and> nat d = nat d'"
    by (simp add: iso_date_fixed_width assms
          fixed_width_eq [OF ny] fixed_width_eq [OF nm] fixed_width_eq [OF nd])
  also have "\<dots> \<longleftrightarrow> y = y' \<and> m = m' \<and> d = d'"
    using assms by auto
  finally show ?thesis .
qed

lemma month_window_bounds:
  "fst (month_window mo yr) = iso_date yr mo 1"
  "mo = 12 \<Longrightarrow> snd (month_window mo yr) = iso_date (yr + 1) 1 1"
  "mo \<noteq> 12 \<Longrightarrow> snd (month_window mo yr) = iso_date yr (mo + 1) 1"
  by (simp_all add: month_window_def iso_date_def Let_def fmt_02d_def str_int_def
        str_nat.simps [of "Suc 0"] digit_char_def)

lemma in_window_iso_date:
  assumes "1000 \<le> yr" "yr < 9999" "1 \<le> mo" "mo \<le> 12"
    and "1000 \<le> y" "y \<le> 9999" "1 \<le> m" "m \<le> 12" "1 \<le> d" "d \<le> 31"
  shows "in_window (month_window mo yr) (iso_date y m d) \<longleftrightarrow> y = yr \<and> m = mo"
proof -
  have lo: "fst (month_window mo yr) \<le> iso_date y m d \<longleftrightarrow>
            yr < y \<or> yr = y \<and> mo \<le> m"
    using assms
    by (auto simp: month_window_bounds(1) le_less [of "iso_date yr mo 1"] iso_date_less iso_date_inj)
  have hi: "iso_date y m d < snd (month_window mo yr) \<longleftrightarrow>
            y < yr \<or> y = yr \<and> m \<le> mo"
  proof (cases "mo = 12")
    case True
    with assms show ?thesis
      by (auto simp: month_window_bounds(2) iso_date_less)
  next
    case False
    with assms show ?thesis
      by (auto simp: month_window_bounds(3) iso_date_less)
  qed
  show ?thesis unfolding in_window_def lo hi by auto
qed

text \<open>
  C6. For every requested month and year the lower bound of the billing window is the first
  day of that month; the exclusive upper bound is January 1 of \<open>year + 1\<close> if the month is
  12, and the first day of \<open>month + 1\<close> of the same year for the months 1 to 11. For
  four-digit years, a day written \<open>YYYY-MM-DD\<close> lies in the window exactly if it is a day
  of the requested month of the requested year: the store's comparison of the date strings
  agrees with the calendar.
\<close>

theorem month_window_spec:
  "fst (month_window mo yr) = iso_date yr mo 1
   \<and> (mo = 12 \<longrightarrow> snd (month_window mo yr) = iso_date (yr + 1) 1 1)
   \<and> (1 \<le> mo \<and> mo \<le> 11 \<longrightarrow> snd (month_window mo yr) = iso_date yr (mo + 1) 1)
   \<and> (1000 \<le> yr \<and> yr < 9999 \<and> 1 \<le> mo \<and> mo \<le> 12
        \<and> 1000 \<le> y \<and> y \<le> 9999 \<and> 1 \<le> m \<and> m \<le> 12 \<and> 1 \<le> d \<and> d \<le> 31 \<longrightarrow>
        in_window (month_window mo yr) (iso_date y m d) = (y = yr \<and> m = mo))"
  using month_window_bounds [of mo yr] in_window_iso_date [of yr mo y m d] by auto

theorem month_window_spec_witness:
  "month_window 12 2024 = (''2024-12-01'', ''2025-01-01'')
   \<and> iso_date 2025 1 1 = ''2025-01-01''
   \<and> month_window 2 2024 = (''2024-02-01'', ''2024-03-01'')
   \<and> iso_date 2024 3 1 = ''2024-03-01''
   \<and> in_window (month_window 12 2024) (iso_date 2024 12 31)
   \<and> \<not> in_window (month_window 12 2024) (iso_date 2025 1 1)
   \<and> \<not> in_window (month_window 2 2024) (iso_date 2024 3 1)"
  using month_window_spec [of 12 2024 2024 12 31] month_window_spec [of 12 2024 2025 1 1]
        month_window_spec [of 2 2024 2024 3 1]
  by (simp add: month_window_def iso_date_def Let_def fmt_02d_def str_int_def str_nat.simps
        digit_char_def)

section \<open>Top customers and top products\<close>

lemma length_group_stage: "length (group_stage key docs) = card (key ` set docs)"
  by (simp add: group_stage_def length_remdups_card_conv)

lemma map_fst_group_stage: "map fst (group_stage key docs) = remdups (map key docs)"
  by (simp add: group_stage_def comp_def)

lemma group_stage_nonempty: "(k, ds) \<in> set (group_stage key docs) \<Longrightarrow> ds \<noteq> []"
  by (auto simp: group_stage_def filter_empty_conv)

lemma sorted_desc_sort_desc: "sorted_wrt (\<lambda>a b. b \<le> a) (map f (sort_desc f xs))"
proof -
  have "sorted (map (\<lambda>x. - f x) (sort_key (\<lambda>x. - f x) xs))" by (rule sorted_sort_key)
  then show ?thesis by (simp add: sort_desc_def sorted_map sorted_wrt_map)
qed

lemma set_sort_desc [simp]: "set (sort_desc f xs) = set xs"
  by (simp add: sort_desc_def)

lemma length_sort_desc [simp]: "length (sort_desc f xs) = length xs"
  by (simp add: sort_desc_def)

lemma distinct_map_insort_key:
  "distinct (map g (insort_key f x xs)) \<longleftrightarrow> g x \<notin> g ` set xs \<and> distinct (map g xs)"
  by (induction xs) (auto simp: set_insort_key)

lemma distinct_map_sort_desc: "distinct (map g (sort_desc f xs)) = distinct (map g xs)"
  unfolding sort_desc_def
  by (induction xs) (auto simp: distinct_map_insort_key)

lemma limit_to_list_all:
  "int (length docs) < limit \<Longrightarrow> limit_to_list limit docs = Inr docs"
  by (simp add: limit_to_list_def)

lemma limit_to_list_pos:
  "0 < limit \<Longrightarrow> limit_to_list limit docs = Inr (take (nat limit) docs)"
  by (simp add: limit_to_list_def)

lemma limit_to_list_nonpos:
  "limit \<le> 0 \<Longrightarrow> limit_to_list limit docs = Inl (if limit < 0 then ValueError else OperationFailure)"
  by (simp add: limit_to_list_def)

lemma map_id_customer_groups:
  "map tc_customer_id (customer_groups sales) = remdups (map sale_customer_id sales)"
  by (simp add: customer_groups_def group_stage_def comp_def)

lemma map_id_product_groups:
  "map tp_product_id (product_groups unwound) = remdups (map item_product_id unwound)"
  by (simp add: product_groups_def group_stage_def comp_def)

lemma customer_groups_totals:
  "g \<in> set (customer_groups sales) \<Longrightarrow>
   total_purchases g =
     sum_list (map total_amount (filter (\<lambda>x. sale_customer_id x = tc_customer_id g) sales))
   \<and> purchase_count g = int (length (filter (\<lambda>x. sale_customer_id x = tc_customer_id g) sales))"
  by (auto simp: customer_groups_def group_stage_def)

lemma product_groups_totals:
  "g \<in> set (product_groups unwound) \<Longrightarrow>
   total_revenue g =
     sum_list (map total (filter (\<lambda>x. item_product_id x = tp_product_id g) unwound))
   \<and> total_quantity g =
     sum_list (map quantity (filter (\<lambda>x. item_product_id x = tp_product_id g) unwound))"
  by (auto simp: product_groups_def group_stage_def)

lemma top_customers_all:
  assumes "int (card (sale_customer_id ` set (month_sales mo yr s))) < limit"
  shows "\<exists>r. get_top_customers limit mo yr s = Inr r
           \<and> length r = card (sale_customer_id ` set (month_sales mo yr s))
           \<and> distinct (map tc_customer_id r)
           \<and> set (map tc_customer_id r) = sale_customer_id ` set (month_sales mo yr s)
           \<and> sorted_wrt (\<lambda>a b. b \<le> a) (map total_purchases r)
           \<and> (\<forall>g \<in> set r.
                 total_purchases g =
                   sum_list (map total_amount
                     (filter (\<lambda>x. sale_customer_id x = tc_customer_id g) (month_sales mo yr s)))
                 \<and> purchase_count g =
                   int (length (filter (\<lambda>x. sale_customer_id x = tc_customer_id g)
                     (month_sales mo yr s))))"
proof -
  define gs where "gs = customer_groups (month_sales mo yr s)"
  define r where "r = sort_desc total_purchases gs"
  have len: "length gs = card (sale_customer_id ` set (month_sales mo yr s))"
    by (simp add: gs_def customer_groups_def length_group_stage)
  with assms have "get_top_customers limit mo yr s = Inr r"
    by (simp add: get_top_customers_def r_def gs_def [symmetric] limit_to_list_all)
  moreover have "length r = card (sale_customer_id ` set (month_sales mo yr s))"
    by (simp add: r_def len)
  moreover have "distinct (map tc_customer_id r)"
    by (simp add: r_def distinct_map_sort_desc gs_def map_id_customer_groups)
  moreover have "set (map tc_customer_id r) = sale_customer_id ` set (month_sales mo yr s)"
  proof -
    have "set (map tc_customer_id r) = set (map tc_customer_id gs)" by (simp add: r_def)
    then show ?thesis by (simp add: gs_def map_id_customer_groups)
  qed
  moreover have "sorted_wrt (\<lambda>a b. b \<le> a) (map total_purchases r)"
    unfolding r_def by (rule sorted_desc_sort_desc)
  moreover have "\<forall>g \<in> set r.
                 total_purchases g =
                   sum_list (map total_amount
                     (filter (\<lambda>x. sale_customer_id x = tc_customer_id g) (month_sales mo yr s)))
                 \<and> purchase_count g =
                   int (length (filter (\<lambda>x. sale_customer_id x = tc_customer_id g)
                     (month_sales mo yr s)))"
    using customer_groups_totals [of _ "month_sales mo yr s"] by (simp add: r_def gs_def)
  ultimately show ?thesis by blast
qed

lemma top_products_all:
  assumes "int (card (item_product_id ` set (concat (map sale_items (month_sales mo yr s))))) < limit"
  shows "\<exists>r. get_top_products limit mo yr s = Inr r
           \<and> length r = card (item_product_id ` set (concat (map sale_items (month_sales mo yr s))))
           \<and> distinct (map tp_product_id r)
           \<and> set (map tp_product_id r) =
               item_product_id ` set (concat (map sale_items (month_sales mo yr s)))
           \<and> sorted_wrt (\<lambda>a b. b \<le> a) (map total_revenue r)
           \<and> (\<forall>g \<in> set r.
                 total_revenue g =
                   sum_list (map total
                     (filter (\<lambda>x. item_product_id x = tp_product_id g)
                        (concat (map sale_items (month_sales mo yr s)))))
                 \<and> total_quantity g =
                   sum_list (map quantity
                     (filter (\<lambda>x. item_product_id x = tp_product_id g)
                        (concat (map sale_items (month_sales mo yr s))))))"
proof -
  define items where "items = concat (map sale_items (month_sales mo yr s))"
  define gs where "gs = product_groups items"
  define r where "r = sort_desc total_revenue gs"
  have len: "length gs = card (item_product_id ` set items)"
    by (simp add: gs_def product_groups_def length_group_stage)
  with assms have "get_top_products limit mo yr s = Inr r"
    by (simp add: get_top_products_def r_def gs_def items_def [symmetric] limit_to_list_all)
  moreover have "length r = card (item_product_id ` set items)"
    by (simp add: r_def len)
  moreover have "distinct (map tp_product_id r)"
    by (simp add: r_def distinct_map_sort_desc gs_def map_id_product_groups)
  moreover have "set (map tp_product_id r) = item_product_id ` set items"
  proof -
    have "set (map tp_product_id r) = set (map tp_product_id gs)" by (simp add: r_def)
    then show ?thesis by (simp add: gs_def map_id_product_groups)
  qed
  moreover have "sorted_wrt (\<lambda>a b. b \<le> a) (map total_revenue r)"
    unfolding r_def by (rule sorted_desc_sort_desc)
  moreover have "\<forall>g \<in> set r.
                 total_revenue g =
                   sum_list (map total (filter (\<lambda>x. item_product_id x = tp_product_id g) items))
                 \<and> total_quantity g =
                   sum_list (map quantity (filter (\<lambda>x. item_product_id x = tp_product_id g) items))"
    using product_groups_totals [of _ items] by (simp add: r_def gs_def)
  ultimately show ?thesis unfolding items_def by blast
qed

lemma top_customers_pos:
  assumes "0 < limit"
  shows "\<exists>r. get_top_customers limit mo yr s = Inr r
           \<and> length r = min (nat limit) (card (sale_customer_id ` set (month_sales mo yr s)))
           \<and> sorted_wrt (\<lambda>a b. b \<le> a) (map total_purchases r)"
proof -
  define r where "r = sort_desc total_purchases (customer_groups (month_sales mo yr s))"
  have "get_top_customers limit mo yr s = Inr (take (nat limit) r)"
    using assms by (simp add: get_top_customers_def r_def limit_to_list_pos)
  moreover have "length (take (nat limit) r) =
                   min (nat limit) (card (sale_customer_id ` set (month_sales mo yr s)))"
    by (simp add: r_def customer_groups_def length_group_stage min.commute)
  moreover have "sorted_wrt (\<lambda>a b. b \<le> a) (map total_purchases (take (nat limit) r))"
    using sorted_desc_sort_desc [of total_purchases "customer_groups (month_sales mo yr s)"]
    by (simp add: r_def take_map [symmetric] sorted_wrt_take)
  ultimately show ?thesis by blast
qed

lemma top_products_pos:
  assumes "0 < limit"
  shows "\<exists>r. get_top_products limit mo yr s = Inr r
           \<and> length r = min (nat limit)
               (card (item_product_id ` set (concat (map sale_items (month_sales mo yr s)))))
           \<and> sorted_wrt (\<lambda>a b. b \<le> a) (map total_revenue r)"
proof -
  define r where
    "r = sort_desc total_revenue (product_groups (concat (map sale_items (month_sales mo yr s))))"
  have "get_top_products limit mo yr s = Inr (take (nat limit) r)"
    using assms by (simp add: get_top_products_def r_def limit_to_list_pos)
  moreover have "length (take (nat limit) r) =
                   min (nat limit)
                     (card (item_product_id ` set (concat (map sale_items (month_sales mo yr s)))))"
    by (simp add: r_def product_groups_def length_group_stage min.commute)
  moreover have "sorted_wrt (\<lambda>a b. b \<le> a) (map total_revenue (take (nat limit) r))"
    using sorted_desc_sort_desc [of total_revenue
            "product_groups (concat (map sale_items (month_sales mo yr s)))"]
    by (simp add: r_def take_map [symmetric] sorted_wrt_take)
  ultimately show ?thesis by blast
qed

text \<open>
  With \<open>limit = 0\<close> neither query returns an empty sequence: the pipeline carries
  \<open>{"$limit": 0}\<close>, which the store rejects, and the handler fails.
\<close>

theorem top_n_limit_zero_counterexample:
  "get_top_customers 0 1 2024 example_db_month = Inl OperationFailure
   \<and> get_top_customers 0 1 2024 example_db_month \<noteq> Inr []
   \<and> get_top_products 0 1 2024 example_db_month = Inl OperationFailure
   \<and> get_top_products 0 1 2024 example_db_month \<noteq> Inr []"
  by (simp add: get_top_customers_def get_top_products_def limit_to_list_def)

text \<open>
  C7, as the code has it. For every state of the sales data and every month, the
  top-customers and top-products queries called with a limit of at least 1 return the first
  \<open>limit\<close> groups (fewer if there are fewer) in descending order of revenue; called with a
  limit greater than the number of distinct groups (customers, respectively products, in the
  month's sales) they return every group exactly once, nothing more, in descending order of
  revenue, each with the sums over its sales. Called with a limit of 0 or less they return
  no sequence: the query fails.
\<close>

theorem top_n_spec:
  "(limit \<le> 0 \<longrightarrow>
      (\<exists>e. get_top_customers limit mo yr s = Inl e) \<and> (\<exists>e. get_top_products limit mo yr s = Inl e))
   \<and> (0 < limit \<longrightarrow>
        (\<exists>r. get_top_customers limit mo yr s = Inr r
           \<and> length r = min (nat limit) (card (sale_customer_id ` set (month_sales mo yr s)))
           \<and> sorted_wrt (\<lambda>a b. b \<le> a) (map total_purchases r))
        \<and> (\<exists>r. get_top_products limit mo yr s = Inr r
           \<and> length r = min (nat limit)
               (card (item_product_id ` set (concat (map sale_items (month_sales mo yr s)))))
           \<and> sorted_wrt (\<lambda>a b. b \<le> a) (map total_revenue r)))
   \<and> (int (card (sale_customer_id ` set (month_sales mo yr s))) < limit \<longrightarrow>
        (\<exists>r. get_top_customers limit mo yr s = Inr r
           \<and> length r = card (sale_customer_id ` set (month_sales mo yr s))
           \<and> distinct (map tc_customer_id r)
           \<and> set (map tc_customer_id r) = sale_customer_id ` set (month_sales mo yr s)
           \<and> sorted_wrt (\<lambda>a b. b \<le> a) (map total_purchases r)
           \<and> (\<forall>g \<in> set r.
                 total_purchases g =
                   sum_list (map total_amount
                     (filter (\<lambda>x. sale_customer_id x = tc_customer_id g) (month_sales mo yr s)))
                 \<and> purchase_count g =
                   int (length (filter (\<lambda>x. sale_customer_id x = tc_customer_id g)
                     (month_sales mo yr s))))))
   \<and> (int (card (item_product_id ` set (concat (map sale_items (month_sales mo yr s))))) < limit \<longrightarrow>
        (\<exists>r. get_top_products limit mo yr s = Inr r
           \<and> length r = card (item_product_id ` set (concat (map sale_items (month_sales mo yr s))))
           \<and> distinct (map tp_product_id r)
           \<and> set (map tp_product_id r) =
               item_product_id ` set (concat (map sale_items (month_sales mo yr s)))
           \<and> sorted_wrt (\<lambda>a b. b \<le> a) (map total_revenue r)
           \<and> (\<forall>g \<in> set r.
                 total_revenue g =
                   sum_list (map total
                     (filter (\<lambda>x. item_product_id x = tp_product_id g)
                        (concat (map sale_items (month_sales mo yr s)))))
                 \<and> total_quantity g =
                   sum_list (map quantity
                     (filter (\<lambda>x. item_product_id x = tp_product_id g)
                        (concat (map sale_items (month_sales mo yr s))))))))"
  using top_customers_all [of mo yr s limit] top_products_all [of mo yr s limit]
        top_customers_pos [of limit mo yr s] top_products_pos [of limit mo yr s]
  by (simp add: get_top_customers_def get_top_products_def limit_to_list_nonpos)

lemma example_month_sales:
  "month_sales 1 2024 example_db_month = [example_sale, example_sale2, example_sale3]"
  by (simp add: month_sales_def example_defs in_window_def month_window_def Let_def fmt_02d_def
        str_int_def str_nat.simps digit_char_def)

theorem top_n_spec_witness:
  "int (card (sale_customer_id ` set (month_sales 1 2024 example_db_month))) < 5
   \<and> int (card (item_product_id ` set (concat (map sale_items (month_sales 1 2024 example_db_month))))) < 5
   \<and> get_top_customers 5 1 2024 example_db_month =
       Inr [\<lparr>tc_customer_id = ''c2'', tc_customer_name = ''Ravi'', total_purchases = 250,
              purchase_count = 1\<rparr>,
            \<lparr>tc_customer_id = ''c1'', tc_customer_name = ''Asha'', total_purchases = 150,
              purchase_count = 2\<rparr>]
   \<and> get_top_products 5 1 2024 example_db_month =
       Inr [\<lparr>tp_product_id = ''p2'', tp_product_name = ''Ghee'', total_quantity = 1,
              total_revenue = 250\<rparr>,
            \<lparr>tp_product_id = ''p1'', tp_product_name = ''Milk'', total_quantity = 3,
              total_revenue = 150\<rparr>]
   \<and> get_top_customers 1 1 2024 example_db_month =
       Inr [\<lparr>tc_customer_id = ''c2'', tc_customer_name = ''Ravi'', total_purchases = 250,
              purchase_count = 1\<rparr>]
   \<and> (\<exists>e. get_top_products (- 1) 1 2024 example_db_month = Inl e)"
  using top_n_spec [of 5 1 2024 example_db_month] top_n_spec [of 1 1 2024 example_db_month]
        top_n_spec [of "- 1" 1 2024 example_db_month]
  by (simp add: example_month_sales get_top_customers_def get_top_products_def limit_to_list_def
        customer_groups_def product_groups_def group_stage_def sort_desc_def example_sale_def
        example_sale2_def example_sale3_def example_item_def card_insert_if)

section \<open>The sales chart\<close>

lemma chart_loop_run:
  assumes "time_of_day current = time_of_day end_date"
    and "ordinal current + int n = ordinal end_date + 1"
    and "1 \<le> ordinal current"
    and "ordinal end_date < 3652059"
  shows "chart_loop fmt_date fmt_day s end_date current acc =
           Inr (acc @ map (\<lambda>k. chart_point_of fmt_date fmt_day s
                                 (current\<lparr>ordinal := ordinal current + int k\<rparr>)) [0..<n])"
  using assms
proof (induction n arbitrary: current acc)
  case 0
  then have "\<not> datetime_le current end_date" by (simp add: datetime_le_def)
  then show ?case
    by (simp add: chart_loop.simps [of fmt_date fmt_day s end_date current acc])
next
  case (Suc n)
  define nxt where "nxt = current\<lparr>ordinal := ordinal current + 1\<rparr>"
  from Suc.prems have "ordinal current \<le> ordinal end_date" by simp
  with Suc.prems have le: "datetime_le current end_date" by (auto simp: datetime_le_def)
  from Suc.prems have add: "datetime_add current 1 = Inr nxt"
    by (simp add: datetime_add_def nxt_def)
  have "chart_loop fmt_date fmt_day s end_date nxt (acc @ [chart_point_of fmt_date fmt_day s current]) =
          Inr ((acc @ [chart_point_of fmt_date fmt_day s current]) @
               map (\<lambda>k. chart_point_of fmt_date fmt_day s (nxt\<lparr>ordinal := ordinal nxt + int k\<rparr>)) [0..<n])"
    using Suc.prems by (intro Suc.IH) (simp_all add: nxt_def)
  moreover have "map (\<lambda>k. chart_point_of fmt_date fmt_day s
                     (current\<lparr>ordinal := ordinal current + int k\<rparr>)) [0..<Suc n] =
                 chart_point_of fmt_date fmt_day s current #
                 map (\<lambda>k. chart_point_of fmt_date fmt_day s (nxt\<lparr>ordinal := ordinal nxt + int k\<rparr>)) [0..<n]"
    by (simp add: map_upt_Suc nxt_def add.assoc del: upt_Suc)
  ultimately show ?case
    using le add by (simp add: chart_loop.simps [of fmt_date fmt_day s end_date current acc] del: upt_Suc)
qed

lemma get_sales_chart_run:
  assumes "0 \<le> days" and "days < ordinal now" and "ordinal now < 3652059"
  shows "get_sales_chart fmt_date fmt_day now days s =
           Inr (map (\<lambda>k. chart_point_of fmt_date fmt_day s
                            (now\<lparr>ordinal := ordinal now - days + int k\<rparr>)) [0..<nat days + 1])"
proof -
  define start where "start = now\<lparr>ordinal := ordinal now - days\<rparr>"
  from assms have td: "timedelta_days days = Inr days" by (simp add: timedelta_days_def)
  from assms have sub: "datetime_add now (- days) = Inr start"
    by (simp add: datetime_add_def start_def)
  have "chart_loop fmt_date fmt_day s now start [] =
          Inr ([] @ map (\<lambda>k. chart_point_of fmt_date fmt_day s
                            (start\<lparr>ordinal := ordinal start + int k\<rparr>)) [0..<nat days + 1])"
    using assms by (intro chart_loop_run) (simp_all add: start_def)
  then show ?thesis by (simp add: get_sales_chart_def td sub start_def)
qed

lemma get_sales_chart_overflow:
  assumes "ordinal now \<le> days"
  shows "get_sales_chart fmt_date fmt_day now days s = Inl OverflowError"
  using assms by (simp add: get_sales_chart_def timedelta_days_def datetime_add_def)

lemma chart_point_of_fields:
  "cp_date (chart_point_of fmt_date fmt_day s c) = fmt_date c"
  "cp_day (chart_point_of fmt_date fmt_day s c) = fmt_day c"
  "cp_revenue (chart_point_of fmt_date fmt_day s c) =
     sum_list (map total_amount (take 1000 (filter (\<lambda>x. sale_date x = fmt_date c) (daily_sales s))))
     + sum_list (map guest_total_amount
         (take 1000 (filter (\<lambda>x. guest_date x = fmt_date c) (guest_sales s))))"
  "cp_transactions (chart_point_of fmt_date fmt_day s c) =
     int (length (take 1000 (filter (\<lambda>x. sale_date x = fmt_date c) (daily_sales s))))
     + int (length (take 1000 (filter (\<lambda>x. guest_date x = fmt_date c) (guest_sales s))))"
  by (simp_all add: chart_point_of_def find_to_list_def Let_def)

lemma example_strftime:
  "strftime_ymd example_now = ''2024-01-15''"
  "strftime_a example_now = ''Mon''"
  "strftime_ymd (example_now\<lparr>ordinal := 738899\<rparr>) = ''2024-01-14''"
  "strftime_a (example_now\<lparr>ordinal := 738899\<rparr>) = ''Sun''"
  by (simp_all add: strftime_ymd_def strftime_a_def example_now_def ord2ymd_def Let_def
        days_before_month_def days_in_month_def iso_date_def fmt_02d_def str_int_def
        str_nat.simps digit_char_def)

text \<open>
  Two inputs at which the chart is not what C8 states. On 2024-01-15 a request for the last
  1000000 days fails: the first day would lie before 0001-01-01. And for a day with 1001
  daily sales the data point counts 1000 transactions: each of the two queries of a day
  reads at most 1000 documents.
\<close>

theorem sales_chart_counterexample:
  "get_sales_chart strftime_ymd strftime_a example_now 1000000 example_db_chart = Inl OverflowError
   \<and> length (filter (\<lambda>x. sale_date x = ''2024-01-15'') (daily_sales busy_day_db)) = 1001
   \<and> get_sales_chart strftime_ymd strftime_a example_now 0 busy_day_db =
       Inr [\<lparr>cp_date = ''2024-01-15'', cp_day = ''Mon'', cp_revenue = 100000,
              cp_transactions = 1000\<rparr>]"
proof -
  have a: "get_sales_chart strftime_ymd strftime_a example_now 1000000 example_db_chart
             = Inl OverflowError"
    by (rule get_sales_chart_overflow) (simp add: example_now_def)
  have day: "filter (\<lambda>x. sale_date x = ''2024-01-15'') (daily_sales busy_day_db)
               = daily_sales busy_day_db"
    by (simp add: busy_day_db_def example_sale_def comp_def)
  have b: "length (filter (\<lambda>x. sale_date x = ''2024-01-15'') (daily_sales busy_day_db)) = 1001"
    unfolding day by (simp add: busy_day_db_def)
  have first: "take 1000 (daily_sales busy_day_db)
                 = map (\<lambda>i. example_sale\<lparr>sale_id := str_nat i\<rparr>) [0..<1000]"
    by (simp add: busy_day_db_def take_map)
  have run: "get_sales_chart strftime_ymd strftime_a example_now 0 busy_day_db =
               Inr [chart_point_of strftime_ymd strftime_a busy_day_db example_now]"
    using get_sales_chart_run [of 0 example_now strftime_ymd strftime_a busy_day_db]
    by (simp add: example_now_def)
  have c: "chart_point_of strftime_ymd strftime_a busy_day_db example_now =
             \<lparr>cp_date = ''2024-01-15'', cp_day = ''Mon'', cp_revenue = 100000,
              cp_transactions = 1000\<rparr>"
    by (simp add: chart_point_of_def find_to_list_def Let_def example_strftime day first comp_def
          sum_list_triv)
       (simp add: busy_day_db_def example_sale_def)
  from a b run c show ?thesis by simp
qed

text \<open>
  C8, as the code has it. For every day count \<open>d\<close> from 0 up to, but not including, the
  ordinal of today (so that \<open>today - d\<close> is a day of the calendar), and today before
  9999-12-31, the chart has exactly one data point per calendar day from \<open>today - d\<close> to
  today inclusive, \<open>d + 1\<close> points, oldest first. The point of a day carries its date, its
  weekday label, the summed revenue of the first 1000 daily sales and the first 1000 guest
  sales of that date, and the number of those sales. With \<open>d = 0\<close> the chart is the one
  point of today. A day count from the ordinal of today on makes the handler fail with
  \<open>OverflowError\<close>.
\<close>

theorem sales_chart_spec:
  "(0 \<le> days \<and> days < ordinal now \<and> ordinal now < 3652059 \<longrightarrow>
      (\<exists>chart. get_sales_chart fmt_date fmt_day now days s = Inr chart
         \<and> length chart = nat days + 1
         \<and> (\<forall>k < length chart.
               cp_date (chart ! k) = fmt_date (now\<lparr>ordinal := ordinal now - days + int k\<rparr>)
               \<and> cp_day (chart ! k) = fmt_day (now\<lparr>ordinal := ordinal now - days + int k\<rparr>)
               \<and> cp_revenue (chart ! k) =
                   sum_list (map total_amount (take 1000 (filter
                     (\<lambda>x. sale_date x = fmt_date (now\<lparr>ordinal := ordinal now - days + int k\<rparr>))
                     (daily_sales s))))
                   + sum_list (map guest_total_amount (take 1000 (filter
                     (\<lambda>x. guest_date x = fmt_date (now\<lparr>ordinal := ordinal now - days + int k\<rparr>))
                     (guest_sales s))))
               \<and> cp_transactions (chart ! k) =
                   int (length (take 1000 (filter
                     (\<lambda>x. sale_date x = fmt_date (now\<lparr>ordinal := ordinal now - days + int k\<rparr>))
                     (daily_sales s))))
                   + int (length (take 1000 (filter
                     (\<lambda>x. guest_date x = fmt_date (now\<lparr>ordinal := ordinal now - days + int k\<rparr>))
                     (guest_sales s)))))
         \<and> (days = 0 \<longrightarrow> chart = [chart_point_of fmt_date fmt_day s now])))
   \<and> (ordinal now \<le> days \<longrightarrow> get_sales_chart fmt_date fmt_day now days s = Inl OverflowError)"
proof (intro conjI impI)
  assume h: "0 \<le> days \<and> days < ordinal now \<and> ordinal now < 3652059"
  define chart where
    "chart = map (\<lambda>k. chart_point_of fmt_date fmt_day s
                         (now\<lparr>ordinal := ordinal now - days + int k\<rparr>)) [0..<nat days + 1]"
  from h have run: "get_sales_chart fmt_date fmt_day now days s = Inr chart"
    unfolding chart_def by (intro get_sales_chart_run) simp_all
  have len: "length chart = nat days + 1" by (simp add: chart_def)
  have pts: "chart ! k = chart_point_of fmt_date fmt_day s
                           (now\<lparr>ordinal := ordinal now - days + int k\<rparr>)"
    if "k < length chart" for k
    using that unfolding chart_def by (simp add: nth_map_upt del: upt_Suc)
  have zero: "days = 0 \<longrightarrow> chart = [chart_point_of fmt_date fmt_day s now]"
    by (simp add: chart_def)
  show "\<exists>chart. get_sales_chart fmt_date fmt_day now days s = Inr chart
         \<and> length chart = nat days + 1
         \<and> (\<forall>k < length chart.
               cp_date (chart ! k) = fmt_date (now\<lparr>ordinal := ordinal now - days + int k\<rparr>)
               \<and> cp_day (chart ! k) = fmt_day (now\<lparr>ordinal := ordinal now - days + int k\<rparr>)
               \<and> cp_revenue (chart ! k) =
                   sum_list (map total_amount (take 1000 (filter
                     (\<lambda>x. sale_date x = fmt_date (now\<lparr>ordinal := ordinal now - days + int k\<rparr>))
                     (daily_sales s))))
                   + sum_list (map guest_total_amount (take 1000 (filter
                     (\<lambda>x. guest_date x = fmt_date (now\<lparr>ordinal := ordinal now - days + int k\<rparr>))
                     (guest_sales s))))
               \<and> cp_transactions (chart ! k) =
                   int (length (take 1000 (filter
                     (\<lambda>x. sale_date x = fmt_date (now\<lparr>ordinal := ordinal now - days + int k\<rparr>))
                     (daily_sales s))))
                   + int (length (take 1000 (filter
                     (\<lambda>x. guest_date x = fmt_date (now\<lparr>ordinal := ordinal now - days + int k\<rparr>))
                     (guest_sales s)))))
         \<and> (days = 0 \<longrightarrow> chart = [chart_point_of fmt_date fmt_day s now])"
    using run len zero by (auto simp: pts chart_point_of_fields)
next
  assume "ordinal now \<le> days"
  then show "get_sales_chart fmt_date fmt_day now days s = Inl OverflowError"
    by (rule get_sales_chart_overflow)
qed

theorem sales_chart_spec_witness:
  "(0::int) \<le> 1 \<and> 1 < ordinal example_now \<and> ordinal example_now < 3652059
   \<and> get_sales_chart strftime_ymd strftime_a example_now 1 example_db_chart =
       Inr [\<lparr>cp_date = ''2024-01-14'', cp_day = ''Sun'', cp_revenue = 0, cp_transactions = 0\<rparr>,
            \<lparr>cp_date = ''2024-01-15'', cp_day = ''Mon'', cp_revenue = 120, cp_transactions = 2\<rparr>]
   \<and> get_sales_chart strftime_ymd strftime_a example_now 0 example_db_chart =
       Inr [\<lparr>cp_date = ''2024-01-15'', cp_day = ''Mon'', cp_revenue = 120, cp_transactions = 2\<rparr>]
   \<and> ordinal example_now \<le> 738900
   \<and> get_sales_chart strftime_ymd strftime_a example_now 738900 example_db_chart = Inl OverflowError"
proof -
  have pts:
    "chart_point_of strftime_ymd strftime_a example_db_chart example_now =
       \<lparr>cp_date = ''2024-01-15'', cp_day = ''Mon'', cp_revenue = 120, cp_transactions = 2\<rparr>"
    "chart_point_of strftime_ymd strftime_a example_db_chart (example_now\<lparr>ordinal := 738899\<rparr>) =
       \<lparr>cp_date = ''2024-01-14'', cp_day = ''Sun'', cp_revenue = 0, cp_transactions = 0\<rparr>"
    by (simp_all add: chart_point_of_def find_to_list_def Let_def example_strftime
          example_db_chart_def example_db_month_def example_sale_def example_sale2_def
          example_sale3_def example_guest_sale_def)
  have r1: "get_sales_chart strftime_ymd strftime_a example_now 1 example_db_chart =
              Inr [chart_point_of strftime_ymd strftime_a example_db_chart
                     (example_now\<lparr>ordinal := 738899\<rparr>),
                   chart_point_of strftime_ymd strftime_a example_db_chart example_now]"
    using get_sales_chart_run [of 1 example_now strftime_ymd strftime_a example_db_chart]
    by (simp add: example_now_def upt_rec [of 0] upt_rec [of "Suc 0"])
  have r0: "get_sales_chart strftime_ymd strftime_a example_now 0 example_db_chart =
              Inr [chart_point_of strftime_ymd strftime_a example_db_chart example_now]"
    using get_sales_chart_run [of 0 example_now strftime_ymd strftime_a example_db_chart]
    by (simp add: example_now_def)
  show ?thesis
    using sales_chart_spec [of 1 example_now strftime_ymd strftime_a example_db_chart]
          sales_chart_spec [of 0 example_now strftime_ymd strftime_a example_db_chart]
          sales_chart_spec [of 738900 example_now strftime_ymd strftime_a example_db_chart]
    by (simp add: r1 r0 pts) (simp add: example_now_def)
qed

section \<open>Monthly bills\<close>



lemma bill_key_bill_data [simp]:
  "bill_key mo yr cid (bill_data c mo yr sales now ident) \<longleftrightarrow> cid = cust_id c"
  by (auto simp: bill_key_def bill_data_def Let_def)

lemma bill_id_bill_data [simp]: "bill_id (bill_data c mo yr sales now ident) = ident"
  by (simp add: bill_data_def Let_def)

lemma bill_key_other: "cid \<noteq> cid' \<Longrightarrow> bill_key mo yr cid b \<Longrightarrow> \<not> bill_key mo yr cid' b"
  by (auto simp: bill_key_def)























end
